theory Spec2Isabelle
  imports Complex_Main "HOL-Library.Word"
begin

section \<open>Multi-track synthesizer backend\<close>

text \<open>
  A shallow embedding of \<^verbatim>\<open>backend/synthesizer_backend.py\<close> and
  \<^verbatim>\<open>backend/audio_processor.py\<close>.

  Numbers. A Python or NumPy float is a binary64 number: every arithmetic operation of the
  code is modelled as the exact operation followed by rounding to nearest, ties to even
  (section \<open>Binary floating point\<close>), with overflow to an infinity, NaN and the sign of zero.
  The mixing buffer is a NumPy \<^verbatim>\<open>float32\<close> array, and its operations round to binary32.
  Python's \<^verbatim>\<open>int(x)\<close> truncates towards zero; a NumPy \<^verbatim>\<open>int16\<close> array is a list of 16-bit
  words read as two's complement (\<open>sint\<close>).

  Library numerics. What the numerical libraries compute beyond the basic operations (the
  sine of libm, SciPy's fast Fourier transform, the modulus of a complex number, the
  conversion to \<^verbatim>\<open>int16\<close> of a value that does not fit) is a parameter of the model, the
  record \<open>platform\<close>: the theorems hold for every platform.

  Errors. Every exception the code can raise is a value of type \<open>error\<close>, returned as
  \<open>Inl\<close>. \<open>ValueError\<close>, \<open>ZeroDivisionError\<close> and \<open>OverflowError\<close> are the Python exceptions
  that the code and NumPy raise. \<open>EmptyInput\<close> and \<open>InvalidParameter\<close> are the error kinds of
  the specification; no path of the code constructs them. Running out of memory is not
  modelled.
\<close>

datatype error = ValueError | ZeroDivisionError | OverflowError | EmptyInput | InvalidParameter

text \<open>
  A track dictionary with the four keys the code reads; the three times and frequencies are
  finite binary64 numbers.
\<close>

record track =
  frequency :: real
  duration :: real
  velocity :: int
  start_time :: real

type_synonym int16 = "16 word"

subsection \<open>Binary floating point\<close>

definition round_half_even :: "real \<Rightarrow> int" where
  "round_half_even x =
     (let f = \<lfloor>x\<rfloor>; r = x - of_int f
      in if r < 1 / 2 then f else if 1 / 2 < r then f + 1 else if even f then f else f + 1)"

definition round_to :: "nat \<Rightarrow> int \<Rightarrow> real \<Rightarrow> real" where
  \<comment> \<open>Rounding to nearest, ties to even, to \<open>p\<close> significant bits; below \<open>2 ^ emin\<close> the
      spacing stays that of the least normal binade (subnormal numbers). The exponent is not
      bounded above here.\<close>
  "round_to p emin x =
     (if x = 0 then 0
      else let e = max \<lfloor>log 2 \<bar>x\<bar>\<rfloor> emin - (int p - 1)
           in of_int (round_half_even (x / 2 powi e)) * 2 powi e)"

definition fl64 :: "real \<Rightarrow> real" where
  "fl64 = round_to 53 (- 1022)"

definition fl32 :: "real \<Rightarrow> real" where
  \<comment> \<open>Rounding to binary32. A binary32 sum of 16-bit samples never reaches the overflow
      threshold: from \<open>2 ^ 40\<close> on, adding a sample rounds back to the same number.\<close>
  "fl32 = round_to 24 (- 126)"

datatype npfloat = Finite real | NegZero | PosInf | NegInf | NaN

text \<open>\<open>Finite 0\<close> is the positive zero, \<open>NegZero\<close> the negative one.\<close>

fun sign_bit :: "npfloat \<Rightarrow> bool" where
  "sign_bit (Finite x) = (x < 0)"
| "sign_bit NegZero = True"
| "sign_bit NegInf = True"
| "sign_bit PosInf = False"
| "sign_bit NaN = False"

fun finite_value :: "npfloat \<Rightarrow> real option" where
  "finite_value (Finite x) = Some x"
| "finite_value NegZero = Some 0"
| "finite_value PosInf = None"
| "finite_value NegInf = None"
| "finite_value NaN = None"

definition signed_zero :: "bool \<Rightarrow> npfloat" where
  "signed_zero neg = (if neg then NegZero else Finite 0)"

definition signed_inf :: "bool \<Rightarrow> npfloat" where
  "signed_inf neg = (if neg then NegInf else PosInf)"

definition round64 :: "bool \<Rightarrow> real \<Rightarrow> npfloat" where
  \<comment> \<open>The binary64 result of an operation whose exact value is \<open>x\<close>; \<open>neg\<close> is the sign the
      operation gives to a zero result.\<close>
  "round64 neg x =
     (let y = fl64 x
      in if 2 ^ 1024 \<le> \<bar>y\<bar> then signed_inf (y < 0)
         else if y = 0 then signed_zero neg else Finite y)"

definition np_mul :: "npfloat \<Rightarrow> npfloat \<Rightarrow> npfloat" where
  "np_mul a b =
     (if a = NaN \<or> b = NaN then NaN
      else case (finite_value a, finite_value b) of
             (Some x, Some y) \<Rightarrow> round64 (sign_bit a \<noteq> sign_bit b) (x * y)
           | (Some x, None) \<Rightarrow> if x = 0 then NaN else signed_inf (sign_bit a \<noteq> sign_bit b)
           | (None, Some y) \<Rightarrow> if y = 0 then NaN else signed_inf (sign_bit a \<noteq> sign_bit b)
           | (None, None) \<Rightarrow> signed_inf (sign_bit a \<noteq> sign_bit b))"

definition np_div :: "npfloat \<Rightarrow> npfloat \<Rightarrow> npfloat" where
  \<comment> \<open>NumPy's division: a zero divisor gives an infinity or NaN (and a warning), never an
      exception.\<close>
  "np_div a b =
     (if a = NaN \<or> b = NaN then NaN
      else case (finite_value a, finite_value b) of
             (Some x, Some y) \<Rightarrow>
               if y = 0 then (if x = 0 then NaN else signed_inf (sign_bit a \<noteq> sign_bit b))
               else round64 (sign_bit a \<noteq> sign_bit b) (x / y)
           | (Some x, None) \<Rightarrow> signed_zero (sign_bit a \<noteq> sign_bit b)
           | (None, Some y) \<Rightarrow> signed_inf (sign_bit a \<noteq> sign_bit b)
           | (None, None) \<Rightarrow> NaN)"

definition np_add :: "npfloat \<Rightarrow> npfloat \<Rightarrow> npfloat" where
  "np_add a b =
     (if a = NaN \<or> b = NaN then NaN
      else case (finite_value a, finite_value b) of
             (Some x, Some y) \<Rightarrow> round64 (sign_bit a \<and> sign_bit b) (x + y)
           | (Some x, None) \<Rightarrow> b
           | (None, Some y) \<Rightarrow> a
           | (None, None) \<Rightarrow> if a = b then a else NaN)"

fun np_neg :: "npfloat \<Rightarrow> npfloat" where
  "np_neg (Finite x) = (if x = 0 then NegZero else Finite (- x))"
| "np_neg NegZero = Finite 0"
| "np_neg PosInf = NegInf"
| "np_neg NegInf = PosInf"
| "np_neg NaN = NaN"

definition np_sub :: "npfloat \<Rightarrow> npfloat \<Rightarrow> npfloat" where
  "np_sub a b = np_add a (np_neg b)"

fun np_abs :: "npfloat \<Rightarrow> npfloat" where
  "np_abs (Finite x) = Finite \<bar>x\<bar>"
| "np_abs NegZero = Finite 0"
| "np_abs PosInf = PosInf"
| "np_abs NegInf = PosInf"
| "np_abs NaN = NaN"

definition np_less :: "npfloat \<Rightarrow> npfloat \<Rightarrow> bool" where
  \<comment> \<open>\<open>a < b\<close>: false when either side is NaN; the two zeros are equal.\<close>
  "np_less a b =
     (a \<noteq> NaN \<and> b \<noteq> NaN \<and>
      (case (finite_value a, finite_value b) of
         (Some x, Some y) \<Rightarrow> x < y
       | (Some x, None) \<Rightarrow> b = PosInf
       | (None, Some y) \<Rightarrow> a = NegInf
       | (None, None) \<Rightarrow> a = NegInf \<and> b = PosInf))"

definition np_eq :: "npfloat \<Rightarrow> npfloat \<Rightarrow> bool" where
  "np_eq a b =
     (a \<noteq> NaN \<and> b \<noteq> NaN \<and>
      (case (finite_value a, finite_value b) of
         (Some x, Some y) \<Rightarrow> x = y
       | (Some x, None) \<Rightarrow> False
       | (None, Some y) \<Rightarrow> False
       | (None, None) \<Rightarrow> a = b))"

definition np_le :: "npfloat \<Rightarrow> npfloat \<Rightarrow> bool" where
  "np_le a b = (np_less a b \<or> np_eq a b)"

subsection \<open>Python and NumPy primitives\<close>

definition py_int :: "real \<Rightarrow> int" where
  \<comment> \<open>\<^verbatim>\<open>int(x)\<close> on a finite float: truncation towards zero.\<close>
  "py_int x = (if 0 \<le> x then \<lfloor>x\<rfloor> else \<lceil>x\<rceil>)"

fun py_int_of :: "npfloat \<Rightarrow> error + int" where
  \<comment> \<open>\<^verbatim>\<open>int(x)\<close> on a float: OverflowError on an infinity, ValueError on NaN.\<close>
  "py_int_of (Finite x) = Inr (py_int x)"
| "py_int_of NegZero = Inr 0"
| "py_int_of PosInf = Inl OverflowError"
| "py_int_of NegInf = Inl OverflowError"
| "py_int_of NaN = Inl ValueError"

definition int_to_float :: "int \<Rightarrow> error + npfloat" where
  \<comment> \<open>The conversion of a Python int in mixed arithmetic: correctly rounded, OverflowError
      when the int is too large for a float.\<close>
  "int_to_float n =
     (let y = fl64 (of_int n)
      in if 2 ^ 1024 \<le> \<bar>y\<bar> then Inl OverflowError else Inr (Finite y))"

definition rate_times :: "int \<Rightarrow> npfloat \<Rightarrow> error + npfloat" where
  \<comment> \<open>\<^verbatim>\<open>self.sample_rate * x\<close> and \<^verbatim>\<open>x * self.sample_rate\<close> for a float \<open>x\<close>.\<close>
  "rate_times sample_rate x =
     (case int_to_float sample_rate of
        Inl e \<Rightarrow> Inl e
      | Inr s \<Rightarrow> Inr (np_mul s x))"

definition py_max :: "npfloat list \<Rightarrow> error + npfloat" where
  \<comment> \<open>\<^verbatim>\<open>max(...)\<close> over a sequence of floats: ValueError when it is empty; a later item
      replaces the maximum when it compares greater.\<close>
  "py_max xs =
     (case xs of
        [] \<Rightarrow> Inl ValueError
      | x # ys \<Rightarrow> Inr (fold (\<lambda>y m. if np_less m y then y else m) ys x))"

definition slice_index :: "int \<Rightarrow> int \<Rightarrow> nat" where
  \<comment> \<open>A bound of a Python slice on a sequence of length \<open>n\<close>: a negative bound counts from
      the end, and the result is clamped to \<open>[0, n]\<close>.\<close>
  "slice_index n i = nat (if i < 0 then max 0 (i + n) else min i n)"

definition add_slice :: "real list \<Rightarrow> int \<Rightarrow> int \<Rightarrow> int16 list \<Rightarrow> error + real list" where
  \<comment> \<open>\<^verbatim>\<open>mixed[a:b] += samples\<close> on a \<^verbatim>\<open>float32\<close> array: the slice is a view of \<open>mixed\<close>; the
      operand must have the length of the view or length one (broadcast), otherwise NumPy
      raises ValueError; each sum is rounded to binary32.\<close>
  "add_slice mixed a b samples =
     (let n = int (length mixed);
          lo = slice_index n a;
          hi = slice_index n b;
          view = take (hi - lo) (drop lo mixed)
      in if length samples = length view then
           Inr (take lo mixed
                @ map (\<lambda>(x, s). fl32 (x + real_of_int (sint s))) (zip view samples)
                @ drop (lo + length view) mixed)
         else if length samples = 1 then
           Inr (take lo mixed
                @ map (\<lambda>x. fl32 (x + real_of_int (sint (hd samples)))) view
                @ drop (lo + length view) mixed)
         else Inl ValueError)"

subsection \<open>The numerical libraries\<close>

record platform =
  np_sin :: "real \<Rightarrow> real"
  cast_int16 :: "npfloat \<Rightarrow> int16"
  fft_coeff :: "real list \<Rightarrow> nat \<Rightarrow> complex"
  abs_complex :: "complex \<Rightarrow> real"

text \<open>
  \<open>np_sin\<close> is \<^verbatim>\<open>np.sin\<close> on a finite binary64 number; \<open>cast_int16\<close> is what
  \<^verbatim>\<open>astype(np.int16)\<close> gives for a value whose truncation is not a 16-bit integer (undefined
  in C, so it differs between processors); \<open>fft_coeff xs k\<close> is coefficient \<open>k\<close> of
  \<^verbatim>\<open>scipy.fft.fft\<close> on the non-empty real array \<open>xs\<close>, which returns as many coefficients as
  there are samples, and \<open>abs_complex\<close> is \<^verbatim>\<open>np.abs\<close> on one of its coefficients.
\<close>

definition np_sin_of :: "platform \<Rightarrow> npfloat \<Rightarrow> npfloat" where
  \<comment> \<open>The sine of an infinity or of NaN is NaN.\<close>
  "np_sin_of P x = (case finite_value x of None \<Rightarrow> NaN | Some v \<Rightarrow> round64 (sign_bit x) (np_sin P v))"

definition astype_int16 :: "platform \<Rightarrow> npfloat \<Rightarrow> int16" where
  \<comment> \<open>\<^verbatim>\<open>.astype(np.int16)\<close>: truncation towards zero when the result fits.\<close>
  "astype_int16 P x =
     (case finite_value x of
        None \<Rightarrow> cast_int16 P x
      | Some v \<Rightarrow>
          if - 32768 \<le> py_int v \<and> py_int v \<le> 32767 then word_of_int (py_int v)
          else cast_int16 P x)"

subsection \<open>Signal generator\<close>

definition pi64 :: real where
  \<comment> \<open>\<^verbatim>\<open>np.pi\<close>, the binary64 number nearest to \<open>\<pi>\<close>.\<close>
  "pi64 = 884279719003555 / 2 ^ 48"

definition linspace_point :: "npfloat \<Rightarrow> int \<Rightarrow> nat \<Rightarrow> npfloat" where
  \<comment> \<open>Point \<open>i\<close> of \<^verbatim>\<open>np.linspace(0, stop, num, False)\<close> for \<open>num > 0\<close>: \<open>i * step\<close> with
      \<open>step = stop / num\<close>, or \<open>(i / num) * stop\<close> when the step is zero; then \<open>+ 0\<close>.\<close>
  "linspace_point stop num i =
     (let step = np_div stop (Finite (of_int num));
          y = (if np_eq step (Finite 0)
               then np_mul (np_div (Finite (real i)) (Finite (of_int num))) stop
               else np_mul (Finite (real i)) step)
      in np_add y (Finite 0))"

definition tone_value :: "platform \<Rightarrow> npfloat \<Rightarrow> npfloat \<Rightarrow> npfloat \<Rightarrow> npfloat" where
  \<comment> \<open>\<^verbatim>\<open>amplitude * np.sin(2 * np.pi * frequency * t)\<close> at one point \<open>t\<close>, evaluated from the
      left.\<close>
  "tone_value P freq amplitude t =
     np_mul amplitude (np_sin_of P (np_mul (np_mul (Finite (2 * pi64)) freq) t))"

definition generate_sine_wave ::
  "platform \<Rightarrow> int \<Rightarrow> npfloat \<Rightarrow> npfloat \<Rightarrow> npfloat \<Rightarrow> error + int16 list" where
  \<comment> \<open>Lines 76 to 78. \<^verbatim>\<open>np.linspace\<close> raises ValueError on a negative number of points.\<close>
  "generate_sine_wave P sample_rate freq dur amplitude =
     (case rate_times sample_rate dur of
        Inl e \<Rightarrow> Inl e
      | Inr p \<Rightarrow>
          (case py_int_of p of
             Inl e \<Rightarrow> Inl e
           | Inr num \<Rightarrow>
               if num < 0 then Inl ValueError
               else Inr (map (\<lambda>i. astype_int16 P
                                    (tone_value P freq amplitude (linspace_point dur num i)))
                           [0..<nat num])))"

definition start_sample :: "int \<Rightarrow> track \<Rightarrow> error + int" where
  \<comment> \<open>Line 103: \<^verbatim>\<open>int(track['start_time'] * self.sample_rate)\<close>.\<close>
  "start_sample sample_rate t =
     (case rate_times sample_rate (Finite (start_time t)) of
        Inl e \<Rightarrow> Inl e
      | Inr p \<Rightarrow> py_int_of p)"

definition track_amplitude :: "track \<Rightarrow> error + npfloat" where
  \<comment> \<open>Lines 106 and 109: \<^verbatim>\<open>32767 * (track['velocity'] / 127.0)\<close>.\<close>
  "track_amplitude t =
     (case int_to_float (velocity t) of
        Inl e \<Rightarrow> Inl e
      | Inr v \<Rightarrow> Inr (np_mul (Finite 32767) (np_div v (Finite 127))))"

definition track_tone :: "platform \<Rightarrow> int \<Rightarrow> track \<Rightarrow> error + int16 list" where
  \<comment> \<open>Lines 106 to 109: the tone of one track.\<close>
  "track_tone P sample_rate t =
     (case track_amplitude t of
        Inl e \<Rightarrow> Inl e
      | Inr amplitude \<Rightarrow>
          generate_sine_wave P sample_rate (Finite (frequency t)) (Finite (duration t)) amplitude)"

definition mix_track :: "platform \<Rightarrow> int \<Rightarrow> real list \<Rightarrow> track \<Rightarrow> error + real list" where
  \<comment> \<open>One iteration of the loop over the tracks.\<close>
  "mix_track P sample_rate mixed t =
     (case start_sample sample_rate t of
        Inl e \<Rightarrow> Inl e
      | Inr start \<Rightarrow>
          (case track_tone P sample_rate t of
             Inl e \<Rightarrow> Inl e
           | Inr samples \<Rightarrow> add_slice mixed start (start + int (length samples)) samples))"

fun mix_loop :: "platform \<Rightarrow> int \<Rightarrow> real list \<Rightarrow> track list \<Rightarrow> error + real list" where
  "mix_loop P sample_rate mixed [] = Inr mixed"
| "mix_loop P sample_rate mixed (t # ts) =
     (case mix_track P sample_rate mixed t of
        Inl e \<Rightarrow> Inl e
      | Inr mixed' \<Rightarrow> mix_loop P sample_rate mixed' ts)"

definition peak :: "real list \<Rightarrow> real" where
  \<comment> \<open>\<^verbatim>\<open>np.max(np.abs(mixed))\<close> on a non-empty array.\<close>
  "peak mixed = fold max (map abs (tl mixed)) \<bar>hd mixed\<bar>"

definition scaled :: "real \<Rightarrow> real \<Rightarrow> real" where
  \<comment> \<open>\<^verbatim>\<open>(x / max_val) * 32767\<close> in binary32: both operations round.\<close>
  "scaled max_val x = fl32 (fl32 (x / max_val) * 32767)"

definition normalize :: "platform \<Rightarrow> real list \<Rightarrow> error + int16 list" where
  \<comment> \<open>Lines 115 to 121: the peak, the conditional scaling and the conversion to int16.
      \<^verbatim>\<open>np.max\<close> of an empty array raises ValueError.\<close>
  "normalize P mixed =
     (if mixed = [] then Inl ValueError
      else let max_val = peak mixed
           in Inr (map (\<lambda>x. astype_int16 P (Finite x))
                     (if max_val > 32767 then map (scaled max_val) mixed else mixed)))"

definition total_samples :: "int \<Rightarrow> track list \<Rightarrow> error + int" where
  \<comment> \<open>Lines 95 and 96.\<close>
  "total_samples sample_rate tracks =
     (case py_max (map (\<lambda>t. np_add (Finite (start_time t)) (Finite (duration t))) tracks) of
        Inl e \<Rightarrow> Inl e
      | Inr total_duration \<Rightarrow>
          (case rate_times sample_rate total_duration of
             Inl e \<Rightarrow> Inl e
           | Inr p \<Rightarrow> py_int_of p))"

definition mixed_buffer :: "platform \<Rightarrow> int \<Rightarrow> track list \<Rightarrow> error + real list" where
  \<comment> \<open>Lines 95 to 113: the float buffer before normalisation. \<^verbatim>\<open>np.zeros\<close> of a negative
      size raises ValueError.\<close>
  "mixed_buffer P sample_rate tracks =
     (case total_samples sample_rate tracks of
        Inl e \<Rightarrow> Inl e
      | Inr n \<Rightarrow>
          if n < 0 then Inl ValueError
          else mix_loop P sample_rate (replicate (nat n) 0) tracks)"

definition generate_multi_track :: "platform \<Rightarrow> int \<Rightarrow> track list \<Rightarrow> error + int16 list" where
  "generate_multi_track P sample_rate tracks =
     (case mixed_buffer P sample_rate tracks of
        Inl e \<Rightarrow> Inl e
      | Inr mixed \<Rightarrow> normalize P mixed)"



subsection \<open>Example tracks\<close>

text \<open>
  An instance of the libraries for evaluating examples: the exact sine, the exact discrete
  Fourier transform and the exact modulus. The examples use it only where every platform
  gives the same result: lengths, offsets and errors, which do not depend on the libraries,
  the sine of 0, a product with the amplitude 0, and transforms whose sums are sums of
  \<open>0\<close>, \<open>1\<close> and \<open>-1\<close>. No example reaches \<open>cast_int16\<close>.
\<close>

definition dft_coeff :: "real list \<Rightarrow> nat \<Rightarrow> complex" where
  "dft_coeff xs k =
     (\<Sum>n\<leftarrow>[0..<length xs].
        complex_of_real (xs ! n) * cis (- (2 * pi * real k * real n / real (length xs))))"

definition exact_platform :: platform where
  "exact_platform =
     \<lparr>np_sin = sin, cast_int16 = (\<lambda>x. 0), fft_coeff = dft_coeff, abs_complex = cmod\<rparr>"



text \<open>
  A track of 0.6 s starting at 0.3 s, and a tone of 0.03 s: the fields are the binary64
  numbers nearest to these decimals.
\<close>

definition rounded_track :: track where
  "rounded_track =
     \<lparr>frequency = 440, duration = 5404319552844595 / 2 ^ 53, velocity = 100,
      start_time = 5404319552844595 / 2 ^ 54\<rparr>"

text \<open>A track of 2 s starting at 0.01 s, and a track of velocity 0.\<close>

definition long_track :: track where
  "long_track =
     \<lparr>frequency = 440, duration = 2, velocity = 100, start_time = 5764607523034235 / 2 ^ 59\<rparr>"

definition silent_track :: track where
  "silent_track = \<lparr>frequency = 1, duration = 1, velocity = 0, start_time = 0\<rparr>"


section \<open>Spectral analysis and frequency verification\<close>

text \<open>
  \<^verbatim>\<open>compute_fft\<close> and \<^verbatim>\<open>verify_frequency_accuracy\<close> of \<^verbatim>\<open>backend/synthesizer_backend.py\<close>.
  The transform and the modulus are those of the platform; \<^verbatim>\<open>fftfreq\<close>,
  \<^verbatim>\<open>scipy.signal.find_peaks\<close>, \<^verbatim>\<open>np.argsort\<close>, \<^verbatim>\<open>np.argmin\<close> and \<^verbatim>\<open>np.max\<close> are modelled from
  their sources. A division of NumPy floats by zero does not raise: it yields an infinity
  or NaN (with a warning); a division of Python floats by zero raises ZeroDivisionError.
\<close>

subsection \<open>NumPy reductions and sorting\<close>

definition np_max :: "npfloat list \<Rightarrow> error + npfloat" where
  \<comment> \<open>\<^verbatim>\<open>np.max\<close>: ValueError on an empty array; NaN when an element is NaN.\<close>
  "np_max xs =
     (if xs = [] then Inl ValueError
      else if NaN \<in> set xs then Inr NaN
      else Inr (fold (\<lambda>y m. if np_less m y then y else m) (tl xs) (hd xs)))"

definition np_argmin :: "npfloat list \<Rightarrow> error + nat" where
  \<comment> \<open>\<^verbatim>\<open>np.argmin\<close>: ValueError on an empty array; the index of the first NaN when there is
      one; otherwise the first index of the minimum.\<close>
  "np_argmin xs =
     (if xs = [] then Inl ValueError
      else if NaN \<in> set xs then Inr (length (takeWhile (\<lambda>x. x \<noteq> NaN) xs))
      else let m = fold (\<lambda>y m. if np_less y m then y else m) (tl xs) (hd xs)
           in Inr (length (takeWhile (\<lambda>x. \<not> np_eq x m) xs)))"

definition sorts_before :: "npfloat \<Rightarrow> npfloat \<Rightarrow> bool" where
  \<comment> \<open>The order of \<^verbatim>\<open>np.argsort\<close>: ascending, NaN last.\<close>
  "sorts_before x y = (y = NaN \<or> (x \<noteq> NaN \<and> np_le x y))"

fun insert_index :: "npfloat list \<Rightarrow> nat \<Rightarrow> nat list \<Rightarrow> nat list" where
  "insert_index xs i [] = [i]"
| "insert_index xs i (j # js) =
     (if sorts_before (xs ! j) (xs ! i) then j # insert_index xs i js else i # j # js)"

definition np_argsort :: "npfloat list \<Rightarrow> nat list" where
  \<comment> \<open>\<^verbatim>\<open>np.argsort(xs)\<close>: the indices in ascending order of their values. NumPy leaves the
      order of equal values open; here equal values keep the order of their positions, as
      the insertion sort that NumPy uses on short arrays does.\<close>
  "np_argsort xs = fold (insert_index xs) [0..<length xs] []"

subsection \<open>Peak detection\<close>

text \<open>
  \<^verbatim>\<open>scipy.signal.find_peaks(x, height, distance)\<close>: the local maxima of \<open>x\<close> (a sample
  strictly above its left neighbour, followed by a plateau of equal samples and then a
  strictly smaller one; the first and the last sample are never peaks; a plateau reports
  its middle, rounded down), of which those with \<open>height \<le> x[p]\<close> are kept, of which peaks
  closer than \<open>distance\<close> to a kept peak are removed, "smaller peaks first": the candidates are
  visited from the highest to the lowest and each one still kept removes its neighbours
  within the distance.
\<close>

function plateau_end :: "npfloat list \<Rightarrow> nat \<Rightarrow> nat \<Rightarrow> nat" where
  "plateau_end x i i_ahead =
     (if i_ahead + 1 < length x \<and> np_eq (x ! i_ahead) (x ! i)
      then plateau_end x i (i_ahead + 1) else i_ahead)"
  by pat_completeness auto
termination by (relation "measure (\<lambda>(x, i, i_ahead). length x - i_ahead)") auto

declare plateau_end.simps [simp del]

function local_maxima :: "npfloat list \<Rightarrow> nat \<Rightarrow> nat list" where
  "local_maxima x i =
     (if i + 1 < length x then
        if np_less (x ! (i - 1)) (x ! i) then
          let i_ahead = plateau_end x i (i + 1)
          in if np_less (x ! i_ahead) (x ! i)
             then ((i + (i_ahead - 1)) div 2) # local_maxima x (i_ahead + 1)
             else local_maxima x (i + 1)
        else local_maxima x (i + 1)
      else [])"
  by pat_completeness auto
termination
proof (relation "measure (\<lambda>(x, i). length x - i)")
  fix x :: "npfloat list" and i i_ahead :: nat
  assume "i + 1 < length x" and "i_ahead = plateau_end x i (i + 1)"
  moreover have "a \<le> plateau_end x i a" for a
    by (induction x i a rule: plateau_end.induct) (subst plateau_end.simps, auto)
  ultimately have "i + 1 \<le> i_ahead" and "i + 1 < length x" by simp_all
  then show "((x, i_ahead + 1), (x, i)) \<in> measure (\<lambda>(x, i). length x - i)" by simp
qed auto

declare local_maxima.simps [simp del]

fun flag_earlier :: "nat list \<Rightarrow> nat \<Rightarrow> nat \<Rightarrow> nat \<Rightarrow> bool list \<Rightarrow> bool list" where
  \<comment> \<open>The loop over \<open>k = j - 1, j - 2, ...\<close> while \<open>peaks[j] - peaks[k] < distance\<close>; the fourth
      argument is \<open>k + 1\<close>.\<close>
  "flag_earlier peaks d j 0 keep = keep"
| "flag_earlier peaks d j (Suc k) keep =
     (if peaks ! j - peaks ! k < d then flag_earlier peaks d j k (keep[k := False]) else keep)"

function flag_later :: "nat list \<Rightarrow> nat \<Rightarrow> nat \<Rightarrow> nat \<Rightarrow> bool list \<Rightarrow> bool list" where
  \<comment> \<open>The loop over \<open>k = j + 1, j + 2, ...\<close> while \<open>peaks[k] - peaks[j] < distance\<close>.\<close>
  "flag_later peaks d j k keep =
     (if k < length peaks \<and> peaks ! k - peaks ! j < d
      then flag_later peaks d j (k + 1) (keep[k := False]) else keep)"
  by pat_completeness auto
termination by (relation "measure (\<lambda>(peaks, d, j, k, keep). length peaks - k)") auto

declare flag_later.simps [simp del]

definition select_step :: "nat list \<Rightarrow> nat \<Rightarrow> nat \<Rightarrow> bool list \<Rightarrow> bool list" where
  "select_step peaks d j keep =
     (if keep ! j then flag_later peaks d j (j + 1) (flag_earlier peaks d j j keep) else keep)"

definition select_by_peak_distance :: "nat list \<Rightarrow> npfloat list \<Rightarrow> nat \<Rightarrow> bool list" where
  \<comment> \<open>The candidates are visited in decreasing priority (their heights).\<close>
  "select_by_peak_distance peaks priority d =
     fold (select_step peaks d) (rev (np_argsort priority)) (replicate (length peaks) True)"

definition find_peaks :: "npfloat list \<Rightarrow> real \<Rightarrow> nat \<Rightarrow> nat list" where
  "find_peaks x height distance =
     (let peaks = filter (\<lambda>p. np_le (Finite height) (x ! p)) (local_maxima x 1);
          keep = select_by_peak_distance peaks (map (\<lambda>p. x ! p) peaks) distance
      in map fst (filter snd (zip peaks keep)))"

subsection \<open>Spectral analyser\<close>

record spectrum =
  frequencies :: "npfloat list"
  magnitude :: "npfloat list"
  peak_frequencies :: "npfloat list"
  peak_magnitudes :: "npfloat list"

definition height_01 :: real where
  \<comment> \<open>The float \<^verbatim>\<open>0.1\<close>.\<close>
  "height_01 = 3602879701896397 / 2 ^ 55"

definition top_peaks :: "npfloat list \<Rightarrow> npfloat list \<Rightarrow> npfloat list \<times> npfloat list" where
  \<comment> \<open>Lines 162 to 170: the peaks of the normalised magnitudes, sorted by decreasing
      magnitude, the first ten.\<close>
  "top_peaks freqs mag =
     (let peaks = find_peaks mag height_01 50;
          peak_freqs = map (\<lambda>p. freqs ! p) peaks;
          peak_mags = map (\<lambda>p. mag ! p) peaks;
          sorted_idx = rev (np_argsort peak_mags)
      in (take 10 (map (\<lambda>i. peak_freqs ! i) sorted_idx),
          take 10 (map (\<lambda>i. peak_mags ! i) sorted_idx)))"

definition compute_fft :: "platform \<Rightarrow> int \<Rightarrow> int16 list \<Rightarrow> error + spectrum" where
  \<comment> \<open>Lines 150 to 179 on an array of 16-bit samples. \<^verbatim>\<open>fft\<close> of an empty array raises
      ValueError. \<^verbatim>\<open>1/self.sample_rate\<close> is Python's division of two ints: it raises
      ZeroDivisionError at sample rate 0 and is correctly rounded otherwise.
      \<^verbatim>\<open>fftfreq(n, d)\<close> computes the Python float \<open>val = 1.0 / (n * d)\<close>, which raises
      ZeroDivisionError when \<open>n * d\<close> is zero, and returns \<open>k * val\<close>. \<^verbatim>\<open>np.max\<close> of the empty
      half (one sample) raises ValueError. The division by the maximum is not guarded.\<close>
  "compute_fft P sample_rate samples =
     (if samples = [] then Inl ValueError
      else if sample_rate = 0 then Inl ZeroDivisionError
      else
        let n = length samples;
            xs = map (\<lambda>s. real_of_int (sint s)) samples;
            d = round64 (sample_rate < 0) (1 / real_of_int sample_rate);
            nd = np_mul (Finite (fl64 (real n))) d
        in if np_eq nd (Finite 0) then Inl ZeroDivisionError
           else
             let val = np_div (Finite 1) nd;
                 freqs = map (\<lambda>k. np_mul (Finite (real k)) val) [0..<n div 2];
                 mag = map (\<lambda>k. Finite (abs_complex P (fft_coeff P xs k))) [0..<n div 2]
             in case np_max mag of
                  Inl e \<Rightarrow> Inl e
                | Inr m \<Rightarrow>
                    let normalized = map (\<lambda>x. np_div x m) mag;
                        (peak_freqs, peak_mags) = top_peaks freqs normalized
                    in Inr \<lparr>frequencies = freqs, magnitude = normalized,
                             peak_frequencies = peak_freqs, peak_magnitudes = peak_mags\<rparr>)"

subsection \<open>Frequency verification\<close>

record verification =
  expected_frequency :: npfloat
  detected_frequency :: npfloat
  error_percent :: npfloat
  is_accurate :: bool
  tolerance_percent :: npfloat

definition verify_peaks :: "npfloat list \<Rightarrow> npfloat \<Rightarrow> npfloat \<Rightarrow> error + verification" where
  \<comment> \<open>Lines 269 to 281, from the list \<^verbatim>\<open>fft_data['peak_frequencies']\<close> on. \<open>detected_freq\<close>
      is a NumPy float, so the division by a zero \<open>expected_freq\<close> is NumPy's and does not
      raise.\<close>
  "verify_peaks peak_freqs expected_freq tolerance =
     (case np_argmin (map (\<lambda>p. np_abs (np_sub p expected_freq)) peak_freqs) of
        Inl e \<Rightarrow> Inl e
      | Inr closest_idx \<Rightarrow>
          let detected_freq = peak_freqs ! closest_idx;
              err = np_div (np_abs (np_sub detected_freq expected_freq)) expected_freq
          in Inr \<lparr>expected_frequency = expected_freq, detected_frequency = detected_freq,
                   error_percent = np_mul err (Finite 100), is_accurate = np_le err tolerance,
                   tolerance_percent = np_mul tolerance (Finite 100)\<rparr>)"

definition verify_frequency_accuracy ::
  "platform \<Rightarrow> int \<Rightarrow> int16 list \<Rightarrow> npfloat \<Rightarrow> npfloat \<Rightarrow> error + verification" where
  "verify_frequency_accuracy P sample_rate samples expected_freq tolerance =
     (case compute_fft P sample_rate samples of
        Inl e \<Rightarrow> Inl e
      | Inr fft_data \<Rightarrow> verify_peaks (peak_frequencies fft_data) expected_freq tolerance)"

subsection \<open>Example buffers\<close>

text \<open>
  Eight samples of a cosine of two cycles, analysed at sample rate 8, and the float \<^verbatim>\<open>0.02\<close>,
  the default tolerance.
\<close>

definition two_cycle_cosine :: "int16 list" where
  "two_cycle_cosine = [1, 0, - 1, 0, 1, 0, - 1, 0]"

definition tolerance_002 :: real where
  "tolerance_002 = 5764607523034235 / 2 ^ 58"

section \<open>Auxiliary facts\<close>

subsection \<open>Rounding\<close>

lemma round_half_even_of_int: "round_half_even (of_int n) = n"
  by (simp add: round_half_even_def)

lemma round_half_even_bounds:
  "\<lfloor>z\<rfloor> \<le> round_half_even z" "round_half_even z \<le> \<lceil>z\<rceil>"
proof -
  show "\<lfloor>z\<rfloor> \<le> round_half_even z" by (simp add: round_half_even_def Let_def)
  show "round_half_even z \<le> \<lceil>z\<rceil>"
  proof (cases "z = of_int \<lfloor>z\<rfloor>")
    case True
    then have "z - of_int \<lfloor>z\<rfloor> = 0" by simp
    then have "round_half_even z = \<lfloor>z\<rfloor>" by (simp add: round_half_even_def Let_def)
    then show ?thesis using floor_le_ceiling [of z] by simp
  next
    case False
    then have "\<lceil>z\<rceil> = \<lfloor>z\<rfloor> + 1" by (simp add: ceiling_altdef)
    then show ?thesis by (simp add: round_half_even_def Let_def)
  qed
qed

lemma round_half_even_abs_le:
  assumes "\<bar>z\<bar> \<le> of_int N"
  shows "\<bar>real_of_int (round_half_even z)\<bar> \<le> of_int N"
proof -
  have "- of_int N \<le> z" "z \<le> of_int N" using assms by linarith+
  then have "- N \<le> \<lfloor>z\<rfloor>" "\<lceil>z\<rceil> \<le> N" by (simp_all add: le_floor_iff ceiling_le_iff)
  then have "- N \<le> round_half_even z" "round_half_even z \<le> N"
    using round_half_even_bounds [of z] by linarith+
  then have "\<bar>round_half_even z\<bar> \<le> N" by linarith
  then show ?thesis by (metis of_int_abs of_int_le_iff)
qed

lemma power_int_nonpos: "e \<le> 0 \<Longrightarrow> (2::real) powi e = 1 / 2 ^ nat (- e)"
proof -
  assume "e \<le> 0"
  then have "e = - int (nat (- e))" by simp
  then have "(2::real) powi e = 2 powi (- int (nat (- e)))" by simp
  also have "\<dots> = inverse (2 powi int (nat (- e)))" by (rule power_int_minus)
  also have "\<dots> = 1 / 2 ^ nat (- e)" by (simp only: power_int_of_nat inverse_eq_divide)
  finally show ?thesis .
qed

lemma power_int_pos: "0 \<le> e \<Longrightarrow> (2::real) powi e = 2 ^ nat e"
  by (simp add: power_int_def)

lemma floor_log2:
  assumes "2 powi k \<le> x" and "x < 2 powi (k + 1)"
  shows "\<lfloor>log 2 x\<rfloor> = k"
proof -
  have "(0::real) < 2 powi k" by simp
  then have pos: "0 < x" using assms(1) by linarith
  have "2 powr (real_of_int k) \<le> x" "x < 2 powr (real_of_int (k + 1))"
    using assms powr_real_of_int' [of 2 k] powr_real_of_int' [of 2 "k + 1"] by simp_all
  then have "real_of_int k \<le> log 2 x" "log 2 x < real_of_int (k + 1)"
    using pos by (simp_all add: le_log_iff log_less_iff)
  then show ?thesis by (intro floor_unique) simp_all
qed

lemma floor_log2_less:
  assumes "0 < x" and "x < 2 powi k"
  shows "\<lfloor>log 2 x\<rfloor> < k"
proof -
  have "x < 2 powr (real_of_int k)" using assms(2) powr_real_of_int' [of 2 k] by simp
  then have "log 2 x < real_of_int k" using assms(1) by (simp add: log_less_iff)
  then show ?thesis by (simp add: floor_less_iff)
qed


lemma round_to_eval:
  assumes "2 powi k \<le> \<bar>x\<bar>" and "\<bar>x\<bar> < 2 powi (k + 1)" and "emin \<le> k"
  shows "round_to p emin x
    = of_int (round_half_even (x / 2 powi (k - (int p - 1)))) * 2 powi (k - (int p - 1))"
proof -
  have "(0::real) < 2 powi k" by simp
  then have "0 < \<bar>x\<bar>" using assms(1) by linarith
  then have "x \<noteq> 0" by simp
  then show ?thesis using floor_log2 [OF assms(1,2)] assms(3)
    by (simp add: round_to_def Let_def max_def)
qed

lemma fl64_eval:
  assumes "2 powi k \<le> \<bar>x\<bar>" and "\<bar>x\<bar> < 2 powi (k + 1)" and "- 1022 \<le> k"
  shows "fl64 x = of_int (round_half_even (x / 2 powi (k - 52))) * 2 powi (k - 52)"
  using round_to_eval [OF assms(1,2), of "- 1022" 53] assms(3) by (simp add: fl64_def)

lemma round_to_exact:
  assumes "x \<noteq> 0 \<Longrightarrow> x / 2 powi (max \<lfloor>log 2 \<bar>x\<bar>\<rfloor> emin - (int p - 1)) \<in> \<int>"
  shows "round_to p emin x = x"
proof (cases "x = 0")
  case True then show ?thesis by (simp add: round_to_def)
next
  case False
  define e where "e = max \<lfloor>log 2 \<bar>x\<bar>\<rfloor> emin - (int p - 1)"
  obtain n where n: "x / 2 powi e = of_int n" using assms [OF False] unfolding e_def by (auto elim: Ints_cases)
  have "round_to p emin x = of_int (round_half_even (x / 2 powi e)) * 2 powi e"
    using False by (simp add: round_to_def Let_def e_def)
  also have "\<dots> = (x / 2 powi e) * 2 powi e" by (simp only: n round_half_even_of_int)
  also have "\<dots> = x" by simp
  finally show ?thesis .
qed

lemma int_over_power_int:
  assumes "(x::real) \<in> \<int>" and "e \<le> 0"
  shows "x / 2 powi e \<in> \<int>"
proof -
  have "x / 2 powi e = x * 2 ^ nat (- e)" by (simp add: power_int_nonpos [OF assms(2)])
  then show ?thesis using assms(1) by simp
qed


lemma round_to_abs_le:
  assumes "\<bar>y\<bar> \<le> of_int B" and "B < 2 ^ p" and "0 < p" and "emin \<le> 0"
  shows "\<bar>round_to p emin y\<bar> \<le> of_int B"
proof (cases "y = 0")
  case True then show ?thesis using assms(1) by (simp add: round_to_def)
next
  case False
  define e where "e = max \<lfloor>log 2 \<bar>y\<bar>\<rfloor> emin - (int p - 1)"
  have r: "round_to p emin y = of_int (round_half_even (y / 2 powi e)) * 2 powi e"
    using False by (simp add: round_to_def Let_def e_def)
  have pos: "(0::real) < 2 powi e" by simp
  have "real_of_int B < 2 ^ p" using assms(2) by (metis of_int_less_iff of_int_numeral of_int_power)
  then have "\<bar>y\<bar> < 2 ^ p" using assms(1) by linarith
  then have "\<bar>y\<bar> < 2 powi int p" by (simp only: power_int_of_nat)
  then have "\<lfloor>log 2 \<bar>y\<bar>\<rfloor> < int p" using False by (intro floor_log2_less) simp_all
  then have e0: "e \<le> 0" using assms(3,4) unfolding e_def by (simp add: max_def)
  have "\<bar>y\<bar> / 2 powi e \<le> of_int B / 2 powi e" using assms(1) pos by (simp add: divide_right_mono)
  moreover obtain N where N: "real_of_int B / 2 powi e = of_int N"
    using int_over_power_int [OF _ e0, of "of_int B"] by (auto elim: Ints_cases)
  ultimately have "\<bar>y / 2 powi e\<bar> \<le> of_int N" using pos by (simp add: abs_divide)
  then have "\<bar>real_of_int (round_half_even (y / 2 powi e))\<bar> \<le> of_int N"
    by (rule round_half_even_abs_le)
  then have "\<bar>real_of_int (round_half_even (y / 2 powi e))\<bar> * 2 powi e \<le> of_int N * 2 powi e"
    using pos by (simp add: mult_right_mono)
  moreover have "real_of_int N * 2 powi e = of_int B" using N [symmetric] by simp
  ultimately show ?thesis unfolding r using pos by (simp add: abs_mult)
qed



subsection \<open>Index arithmetic\<close>


lemma py_int_neg_iff: "py_int x < 0 \<longleftrightarrow> x \<le> -1"
  unfolding py_int_def by (auto simp: ceiling_less_iff)



lemma py_int_of_round64_returns:
  assumes "\<bar>fl64 x\<bar> < 2 ^ 1024"
  shows "py_int_of (round64 neg x) = Inr (py_int (fl64 x))"
  using assms by (auto simp: round64_def Let_def signed_zero_def py_int_def)


lemma np_mul_Finite: "np_mul (Finite a) (Finite b) = round64 ((a < 0) \<noteq> (b < 0)) (a * b)"
  by (simp add: np_mul_def)

lemma np_add_Finite: "np_add (Finite a) (Finite b) = round64 (a < 0 \<and> b < 0) (a + b)"
  by (simp add: np_add_def)



subsection \<open>Adding into a slice\<close>








subsection \<open>The mixing loop\<close>









subsection \<open>Normalisation\<close>








subsection \<open>The length of the buffer\<close>








subsection \<open>The tone generator\<close>




lemma generate_sine_wave_finite:
  assumes "\<bar>fl64 (of_int sr)\<bar> < 2 ^ 1024" and "finite_value dur = Some d"
  defines "p \<equiv> fl64 (fl64 (of_int sr) * d)"
  shows "generate_sine_wave P sr freq dur amp =
     (if 2 ^ 1024 \<le> \<bar>p\<bar> then Inl OverflowError
      else if p \<le> - 1 then Inl ValueError
      else Inr (map (\<lambda>i. astype_int16 P (tone_value P freq amp (linspace_point dur (py_int p) i)))
                  [0..<nat (py_int p)]))"
proof -
  have s: "int_to_float sr = Inr (Finite (fl64 (of_int sr)))"
    using assms(1) by (simp add: int_to_float_def Let_def)
  have m: "np_mul (Finite (fl64 (of_int sr))) dur
      = round64 (sign_bit (Finite (fl64 (of_int sr))) \<noteq> sign_bit dur) (fl64 (of_int sr) * d)"
    using assms(2) by (cases dur) (simp_all add: np_mul_def)
  show ?thesis
  proof (cases "2 ^ 1024 \<le> \<bar>p\<bar>")
    case True
    then have "py_int_of (np_mul (Finite (fl64 (of_int sr))) dur) = Inl OverflowError"
      unfolding m p_def by (simp add: round64_def Let_def signed_inf_def)
    then show ?thesis using True by (simp add: generate_sine_wave_def rate_times_def s)
  next
    case False
    then have "py_int_of (np_mul (Finite (fl64 (of_int sr))) dur) = Inr (py_int p)"
      unfolding m p_def using py_int_of_round64_returns by simp
    then show ?thesis using False
      by (simp add: generate_sine_wave_def rate_times_def s py_int_neg_iff)
  qed
qed


subsection \<open>Numbers that need no rounding\<close>

lemma round_to_exact_int:
  assumes "\<bar>m\<bar> < 2 ^ p" and "emin - (int p - 1) \<le> e" and "0 < p"
  shows "round_to p emin (of_int m * 2 powi e) = of_int m * 2 powi e"
proof (rule round_to_exact)
  define x :: real where "x = of_int m * 2 powi e"
  assume "of_int m * 2 powi e \<noteq> (0::real)"
  then have x0: "x \<noteq> 0" by (simp add: x_def)
  define E where "E = max \<lfloor>log 2 \<bar>x\<bar>\<rfloor> emin - (int p - 1)"
  have "\<bar>real_of_int m\<bar> < 2 ^ p" using assms(1) by (metis of_int_abs of_int_less_numeral_power_cancel_iff)
  then have "\<bar>x\<bar> < 2 ^ p * 2 powi e" by (simp add: x_def abs_mult)
  also have "\<dots> = 2 powi (int p + e)" by (simp add: power_int_add)
  finally have "\<lfloor>log 2 \<bar>x\<bar>\<rfloor> < int p + e" using x0 by (intro floor_log2_less) simp_all
  then have Ee: "E \<le> e" using assms(2) by (simp add: E_def max_def)
  have "x / 2 powi E = of_int m * 2 powi (e - E)" by (simp add: x_def power_int_diff)
  also have "\<dots> = of_int m * 2 ^ nat (e - E)" using Ee by (simp add: power_int_pos)
  also have "\<dots> \<in> \<int>" by simp
  finally show "real_of_int m * 2 powi e / 2 powi (max \<lfloor>log 2 \<bar>real_of_int m * 2 powi e\<bar>\<rfloor> emin - (int p - 1)) \<in> \<int>"
    by (simp add: x_def E_def)
qed

lemma fl64_exact: "\<bar>m\<bar> < 2 ^ 53 \<Longrightarrow> - 1074 \<le> e \<Longrightarrow> fl64 (of_int m * 2 powi e) = of_int m * 2 powi e"
  unfolding fl64_def by (rule round_to_exact_int) simp_all

lemma fl32_exact: "\<bar>m\<bar> < 2 ^ 24 \<Longrightarrow> - 149 \<le> e \<Longrightarrow> fl32 (of_int m * 2 powi e) = of_int m * 2 powi e"
  unfolding fl32_def by (rule round_to_exact_int) simp_all

lemma fl64_of_int: "\<bar>m\<bar> < 2 ^ 53 \<Longrightarrow> fl64 (of_int m) = of_int m"
  using fl64_exact [of m 0] by simp

lemma fl32_of_int: "\<bar>m\<bar> < 2 ^ 24 \<Longrightarrow> fl32 (of_int m) = of_int m"
  using fl32_exact [of m 0] by simp

lemma fl64_0: "fl64 0 = 0"
  by (simp add: fl64_def round_to_def)

subsection \<open>The example tracks, evaluated\<close>

lemma track_tone_length:
  assumes "\<bar>fl64 (fl64 (of_int sr) * duration t)\<bar> < 2 ^ 1024"
    and "- 1 < fl64 (fl64 (of_int sr) * duration t)"
    and "\<bar>fl64 (of_int sr)\<bar> < 2 ^ 1024" and "\<bar>fl64 (of_int (velocity t))\<bar> < 2 ^ 1024"
  shows "\<exists>s. track_tone P sr t = Inr s
           \<and> length s = nat (py_int (fl64 (fl64 (of_int sr) * duration t)))"
proof -
  obtain a where a: "track_amplitude t = Inr a"
    using assms(4) by (simp add: track_amplitude_def int_to_float_def Let_def)
  show ?thesis
    using assms(1,2) generate_sine_wave_finite [OF assms(3), of "Finite (duration t)" "duration t" P "Finite (frequency t)" a]
    by (simp add: track_tone_def a)
qed

lemma fl64_small_int [simp]:
  "fl64 4 = 4" "fl64 44100 = 44100" "fl64 127 = 127" "fl64 100 = 100" "fl64 3 = 3" "fl64 1 = 1"
  using fl64_of_int [of 4] fl64_of_int [of 44100] fl64_of_int [of 127] fl64_of_int [of 100]
    fl64_of_int [of 3] fl64_of_int [of 1]
  by simp_all

lemma fl64_quarters [simp]:
  "fl64 (7 / 4) = 7 / 4" "fl64 (23 / 16) = 23 / 16" "fl64 (23 / 4) = 23 / 4" "fl64 (1 / 2) = 1 / 2"
  "fl64 (1 / 8) = 1 / 8"
  using fl64_exact [of 7 "- 2"] fl64_exact [of 23 "- 4"] fl64_exact [of 23 "- 2"]
    fl64_exact [of 1 "- 1"] fl64_exact [of 1 "- 3"]
  by (simp_all add: power_int_minus)







subsection \<open>Rounded products\<close>

lemma fl64_rounded_track_start:
  "fl64 (44100 * (5404319552844595 / 2 ^ 54)) = 13230"
  using fl64_eval [of 13 "44100 * (5404319552844595 / 2 ^ 54)"]
  by (simp add: round_half_even_def Let_def power_int_minus field_simps)

lemma fl64_rounded_track_duration:
  "fl64 (44100 * (5404319552844595 / 2 ^ 53)) = 26460"
  using fl64_eval [of 14 "44100 * (5404319552844595 / 2 ^ 53)"]
  by (simp add: round_half_even_def Let_def power_int_minus field_simps)

lemma fl64_rounded_track_end:
  "fl64 (5404319552844595 / 2 ^ 54 + 5404319552844595 / 2 ^ 53) = 2026619832316723 / 2 ^ 51"
  using fl64_eval [of "- 1" "5404319552844595 / 2 ^ 54 + 5404319552844595 / 2 ^ 53"]
  by (simp add: round_half_even_def Let_def power_int_minus field_simps)

lemma fl64_rounded_track_total:
  "fl64 (44100 * (2026619832316723 / 2 ^ 51)) = 5454952063303679 / 2 ^ 37"
  using fl64_eval [of 15 "44100 * (2026619832316723 / 2 ^ 51)"]
  by (simp add: round_half_even_def Let_def power_int_minus field_simps)



subsection \<open>A tone longer than the room left in the buffer\<close>

lemma add_slice_overrun:
  assumes "0 \<le> a" and "a \<le> int (length mixed)" and "int (length mixed) < a + int (length s)"
    and "1 < length s"
  shows "add_slice mixed a (a + int (length s)) s = Inl ValueError"
  using assms by (auto simp: add_slice_def slice_index_def Let_def min_def)

lemma generate_multi_track_overrun:
  assumes "total_samples sr [t] = Inr n" and "start_sample sr t = Inr a"
    and "track_tone P sr t = Inr s"
    and "0 \<le> a" and "a \<le> n" and "n < a + int (length s)" and "1 < length s"
  shows "generate_multi_track P sr [t] = Inl ValueError"
proof -
  have n: "0 \<le> n" using assms(4,5) by linarith
  have "add_slice (replicate (nat n) 0) a (a + int (length s)) s = Inl ValueError"
    using assms(4-7) n by (intro add_slice_overrun) simp_all
  then show ?thesis
    using n by (simp add: generate_multi_track_def mixed_buffer_def assms(1,2,3) mix_track_def)
qed

lemma finite_value_round64:
  "\<bar>fl64 x\<bar> < 2 ^ 1024 \<Longrightarrow> finite_value (round64 neg x) = Some (fl64 x)"
  by (auto simp: round64_def Let_def signed_zero_def)

lemma np_mul_finite_value:
  "finite_value b = Some y \<Longrightarrow> np_mul (Finite a) b = round64 ((a < 0) \<noteq> sign_bit b) (a * y)"
  by (cases b) (simp_all add: np_mul_def)

lemma total_samples_single:
  assumes "fl64 (start_time t + duration t) = e" and "fl64 (fl64 (of_int sr) * e) = p"
    and "\<bar>fl64 (of_int sr)\<bar> < 2 ^ 1024" and "\<bar>e\<bar> < 2 ^ 1024" and "\<bar>p\<bar> < 2 ^ 1024"
  shows "total_samples sr [t] = Inr (py_int p)"
proof -
  define total where "total = np_add (Finite (start_time t)) (Finite (duration t))"
  have "finite_value total = Some e"
    unfolding total_def np_add_Finite using assms(1,4) finite_value_round64 by blast
  then have "np_mul (Finite (fl64 (of_int sr))) total
      = round64 ((fl64 (of_int sr) < 0) \<noteq> sign_bit total) (fl64 (of_int sr) * e)"
    by (rule np_mul_finite_value)
  then have "py_int_of (np_mul (Finite (fl64 (of_int sr))) total) = Inr (py_int p)"
    using assms(2,5) py_int_of_round64_returns by simp
  then show ?thesis
    using assms(3) by (simp add: total_samples_def py_max_def rate_times_def int_to_float_def
        Let_def total_def)
qed

lemma start_sample_eval:
  assumes "fl64 (fl64 (of_int sr) * start_time t) = p"
    and "\<bar>fl64 (of_int sr)\<bar> < 2 ^ 1024" and "\<bar>p\<bar> < 2 ^ 1024"
  shows "start_sample sr t = Inr (py_int p)"
  using assms py_int_of_round64_returns
  by (simp add: start_sample_def rate_times_def int_to_float_def Let_def np_mul_Finite)

lemma rounded_track_total: "total_samples 44100 [rounded_track] = Inr 39689"
proof -
  have "total_samples 44100 [rounded_track] = Inr (py_int (5454952063303679 / 2 ^ 37))"
    by (rule total_samples_single [where e = "2026619832316723 / 2 ^ 51"])
      (use fl64_rounded_track_end fl64_rounded_track_total in \<open>simp_all add: rounded_track_def\<close>)
  then show ?thesis by (simp add: py_int_def)
qed

lemma rounded_track_start: "start_sample 44100 rounded_track = Inr 13230"
  using fl64_rounded_track_start
  by (simp add: start_sample_def rate_times_def int_to_float_def np_mul_def round64_def
      rounded_track_def py_int_def)

lemma rounded_track_tone: "\<exists>s. track_tone P 44100 rounded_track = Inr s \<and> length s = 26460"
  using track_tone_length [of 44100 rounded_track P] fl64_rounded_track_duration
  by (simp add: rounded_track_def py_int_def)

lemma rounded_track_fails: "generate_multi_track P 44100 [rounded_track] = Inl ValueError"
proof -
  obtain s where s: "track_tone P 44100 rounded_track = Inr s" "length s = 26460"
    using rounded_track_tone by blast
  show ?thesis
    by (rule generate_multi_track_overrun [OF rounded_track_total rounded_track_start s(1)])
      (simp_all add: s(2))
qed

lemma fl64_long_track_start: "fl64 (44100 * (5764607523034235 / 2 ^ 59)) = 441"
  using fl64_eval [of 8 "44100 * (5764607523034235 / 2 ^ 59)"]
  by (simp add: round_half_even_def Let_def power_int_minus field_simps)

lemma fl64_long_track_end: "fl64 (5764607523034235 / 2 ^ 59 + 2) = 1131529406376837 / 2 ^ 49"
  using fl64_eval [of 1 "5764607523034235 / 2 ^ 59 + 2"]
  by (simp add: round_half_even_def Let_def power_int_minus field_simps)

lemma fl64_long_track_total:
  "fl64 (44100 * (1131529406376837 / 2 ^ 49)) = 6091363137355775 / 2 ^ 36"
  using fl64_eval [of 16 "44100 * (1131529406376837 / 2 ^ 49)"]
  by (simp add: round_half_even_def Let_def power_int_minus field_simps)

lemma fl64_88200: "fl64 88200 = 88200"
  using fl64_of_int [of 88200] by simp

lemma long_track_total: "total_samples 44100 [long_track] = Inr 88640"
proof -
  have "total_samples 44100 [long_track] = Inr (py_int (6091363137355775 / 2 ^ 36))"
    by (rule total_samples_single [where e = "1131529406376837 / 2 ^ 49"])
      (use fl64_long_track_end fl64_long_track_total in \<open>simp_all add: long_track_def\<close>)
  then show ?thesis by (simp add: py_int_def)
qed

lemma long_track_start: "start_sample 44100 long_track = Inr 441"
  using fl64_long_track_start
  by (simp add: start_sample_def rate_times_def int_to_float_def np_mul_def round64_def
      long_track_def py_int_def)

lemma long_track_tone: "\<exists>s. track_tone P 44100 long_track = Inr s \<and> length s = 88200"
  using track_tone_length [of 44100 long_track P] fl64_88200
  by (simp add: long_track_def py_int_def)

lemma long_track_fails: "generate_multi_track P 44100 [long_track] = Inl ValueError"
proof -
  obtain s where s: "track_tone P 44100 long_track = Inr s" "length s = 88200"
    using long_track_tone by blast
  show ?thesis
    by (rule generate_multi_track_overrun [OF long_track_total long_track_start s(1)])
      (simp_all add: s(2))
qed

subsection \<open>Tracks and tones\<close>




lemma fl64_fourths [simp]:
  "fl64 (1 / 4) = 1 / 4" "fl64 (3 / 4) = 3 / 4" "fl64 2 = 2"
  using fl64_exact [of 1 "- 2"] fl64_exact [of 3 "- 2"] fl64_of_int [of 2]
  by (simp_all add: power_int_minus)

lemma finite_value_zero_cases: "finite_value x = Some 0 \<Longrightarrow> x = Finite 0 \<or> x = NegZero"
  by (cases x) simp_all

lemma np_mul_zero_left:
  "finite_value t = Some y \<Longrightarrow> finite_value (np_mul (Finite 0) t) = Some 0"
  by (cases t) (simp_all add: np_mul_def round64_def fl64_0 signed_zero_def)








subsection \<open>A track of velocity 0\<close>

lemma fl64_abs_le: "\<bar>y\<bar> \<le> of_int B \<Longrightarrow> B < 2 ^ 53 \<Longrightarrow> \<bar>fl64 y\<bar> \<le> of_int B"
  unfolding fl64_def by (rule round_to_abs_le) simp_all

lemma sine_finite:
  assumes "finite_value x = Some v"
  shows "\<exists>y. finite_value (np_sin_of exact_platform x) = Some y"
proof -
  have "\<bar>sin v\<bar> \<le> of_int 1" by simp
  then have "\<bar>fl64 (sin v)\<bar> \<le> of_int 1" by (rule fl64_abs_le) simp
  then have "\<bar>fl64 (sin v)\<bar> < 2 ^ 1024" by simp
  then have "finite_value (round64 (sign_bit x) (sin v)) = Some (fl64 (sin v))"
    by (rule finite_value_round64)
  then show ?thesis using assms by (simp add: np_sin_of_def exact_platform_def)
qed

lemma np_mul_finite:
  assumes "finite_value t = Some y" and "\<bar>a * y\<bar> \<le> of_int B" and "B < 2 ^ 53"
  shows "\<exists>v. finite_value (np_mul (Finite a) t) = Some v"
proof -
  have "\<bar>fl64 (a * y)\<bar> \<le> of_int B" using assms(2,3) by (rule fl64_abs_le)
  moreover have "real_of_int B < 2 ^ 1024" using assms(3) by (simp add: of_int_less_numeral_power_cancel_iff [symmetric] del: of_int_less_numeral_power_cancel_iff) 
  ultimately have "\<bar>fl64 (a * y)\<bar> < 2 ^ 1024" by linarith
  then show ?thesis
    unfolding np_mul_finite_value [OF assms(1)] using finite_value_round64 by blast
qed

lemma linspace_quarters:
  assumes "i < 4"
  shows "linspace_point (Finite 1) 4 i = Finite (real i / 4)"
proof -
  have step: "np_div (Finite 1) (Finite (of_int 4)) = Finite (1 / 4)"
    by (simp add: np_div_def round64_def)
  have "i = 0 \<or> i = 1 \<or> i = 2 \<or> i = 3" using assms by linarith
  then have "np_add (np_mul (Finite (real i)) (Finite (1 / 4))) (Finite 0) = Finite (real i / 4)"
    by (auto simp: np_mul_def np_add_def round64_def fl64_0 signed_zero_def)
  then show ?thesis
    unfolding linspace_point_def step by (simp add: np_eq_def)
qed

lemma silent_track_tone: "track_tone exact_platform 4 silent_track = Inr [0, 0, 0, 0]"
proof -
  have amp: "track_amplitude silent_track = Inr (Finite 0)"
    by (simp add: track_amplitude_def int_to_float_def silent_track_def np_div_def np_mul_def
        round64_def fl64_0 signed_zero_def)
  have g: "generate_sine_wave exact_platform 4 (Finite 1) (Finite 1) (Finite 0)
    = Inr (map (\<lambda>i. astype_int16 exact_platform
          (tone_value exact_platform (Finite 1) (Finite 0) (linspace_point (Finite 1) 4 i)))
        [0..<4])"
    using generate_sine_wave_finite [of 4 "Finite 1" 1 exact_platform "Finite 1" "Finite 0"]
    by (simp add: py_int_def)
  have two_pi: "np_mul (Finite (2 * pi64)) (Finite 1) = Finite (2 * pi64)"
    using fl64_exact [of 884279719003555 "- 47"]
    by (simp add: np_mul_def round64_def pi64_def power_int_minus)
  have z: "astype_int16 exact_platform
          (tone_value exact_platform (Finite 1) (Finite 0) (linspace_point (Finite 1) 4 i)) = 0"
    if i: "i < 4" for i
  proof -
    have "\<bar>2 * pi64 * (real i / 4)\<bar> \<le> of_int 7" using i by (simp add: pi64_def field_simps)
    then obtain v where "finite_value (np_mul (Finite (2 * pi64)) (Finite (real i / 4))) = Some v"
      using np_mul_finite [of "Finite (real i / 4)" "real i / 4" "2 * pi64" 7] by auto
    then obtain y where
      "finite_value (np_sin_of exact_platform (np_mul (Finite (2 * pi64)) (Finite (real i / 4))))
         = Some y"
      using sine_finite by blast
    then have "finite_value (np_mul (Finite 0)
        (np_sin_of exact_platform (np_mul (Finite (2 * pi64)) (Finite (real i / 4))))) = Some 0"
      by (rule np_mul_zero_left)
    then have "astype_int16 exact_platform (np_mul (Finite 0)
        (np_sin_of exact_platform (np_mul (Finite (2 * pi64)) (Finite (real i / 4))))) = 0"
      using finite_value_zero_cases by (auto simp: astype_int16_def py_int_def)
    then show ?thesis by (simp add: tone_value_def two_pi linspace_quarters [OF i])
  qed
  have "map (\<lambda>i. astype_int16 exact_platform
          (tone_value exact_platform (Finite 1) (Finite 0) (linspace_point (Finite 1) 4 i)))
        [0..<4] = map (\<lambda>i. 0) [0..<4]"
    using z by (intro map_cong) simp_all
  moreover have "track_tone exact_platform 4 silent_track
      = generate_sine_wave exact_platform 4 (Finite 1) (Finite 1) (Finite 0)"
    unfolding track_tone_def amp by (simp add: silent_track_def)
  ultimately show ?thesis unfolding g by (simp add: upt_rec)
qed

lemma fl32_0: "fl32 0 = 0"
  by (simp add: fl32_def round_to_def)

lemma silent_track_mixed: "mixed_buffer exact_platform 4 [silent_track] = Inr [0, 0, 0, 0]"
proof -
  have t: "total_samples 4 [silent_track] = Inr 4"
    by (simp add: total_samples_def py_max_def rate_times_def int_to_float_def np_mul_def
        np_add_def round64_def silent_track_def py_int_def)
  have st: "start_sample 4 silent_track = Inr 0"
    by (simp add: start_sample_def rate_times_def int_to_float_def np_mul_def round64_def
        silent_track_def py_int_def signed_zero_def fl64_0)
  have r: "replicate (nat 4) (0::real) = [0, 0, 0, 0]" by (simp add: numeral_eq_Suc)
  show ?thesis
    unfolding mixed_buffer_def t
    by (simp only: r sum.case mix_loop.simps mix_track_def st silent_track_tone)
      (simp add: add_slice_def slice_index_def fl32_0)
qed

lemma silent_track_output: "generate_multi_track exact_platform 4 [silent_track] = Inr [0, 0, 0, 0]"
  by (simp add: generate_multi_track_def silent_track_mixed normalize_def peak_def astype_int16_def
      py_int_def)

subsection \<open>The spectral analyser\<close>

lemma dft_zero: "dft_coeff [0, 0, 0, 0] k = 0"
  by (simp add: dft_coeff_def)

lemma find_peaks_short: "length x \<le> 2 \<Longrightarrow> find_peaks x h d = []"
  by (simp add: find_peaks_def local_maxima.simps [of x "Suc 0"] select_by_peak_distance_def np_argsort_def)

lemma top_peaks_short: "length mag \<le> 2 \<Longrightarrow> top_peaks freqs mag = ([], [])"
  by (simp add: top_peaks_def find_peaks_short np_argsort_def)

lemma fl64_8 [simp]: "fl64 8 = 8"
  using fl64_of_int [of 8] by simp

lemma fft_frequency_step:
  "np_mul (Finite 4) (round64 False (1 / 4)) = Finite 1"
  "np_mul (Finite 8) (round64 False (1 / 8)) = Finite 1"
  "np_div (Finite 1) (Finite 1) = Finite 1"
  by (simp_all add: np_mul_def np_div_def round64_def)

lemma compute_fft_silence:
  "compute_fft exact_platform 4 [0, 0, 0, 0]
     = Inr \<lparr>frequencies = [Finite 0, Finite 1], magnitude = [NaN, NaN],
            peak_frequencies = [], peak_magnitudes = []\<rparr>"
proof -
  have u: "[0..<2] = [0, 1]" by (simp add: upt_rec)
  have f: "np_mul (Finite 0) (Finite 1) = Finite 0" "np_mul (Finite 1) (Finite 1) = Finite 1"
    by (simp_all add: np_mul_def round64_def fl64_0 signed_zero_def)
  have m: "np_max [Finite 0, Finite 0] = Inr (Finite 0)" by (simp add: np_max_def np_less_def)
  have z: "np_div (Finite 0) (Finite 0) = NaN" by (simp add: np_div_def)
  show ?thesis
    unfolding compute_fft_def
    by (simp add: Let_def fft_frequency_step np_eq_def u f exact_platform_def dft_zero m z
        top_peaks_short)
qed

lemma cis_quarter_turns: "cis (- (real m * pi / 2)) = (- \<i>) ^ m"
proof -
  have "cis (- (pi / 2)) = - \<i>" by (simp add: complex_eq_iff)
  then have "(- \<i>) ^ m = cis (real m * (- (pi / 2)))" using DeMoivre [of "- (pi / 2)" m] by simp
  then show ?thesis by simp
qed

lemma upt_8: "[0..<8] = [0, 1, 2, 3, 4, 5, 6, 7]"
  by (simp add: upt_rec)

lemma upt_4: "[0..<4] = [0, 1, 2, 3]"
  by (simp add: upt_rec)

lemma dft_two_cycle_cosine:
  "dft_coeff [1, 0, - 1, 0, 1, 0, - 1, 0] 0 = 0"
  "dft_coeff [1, 0, - 1, 0, 1, 0, - 1, 0] (Suc 0) = 0"
  "dft_coeff [1, 0, - 1, 0, 1, 0, - 1, 0] 2 = 4"
  "dft_coeff [1, 0, - 1, 0, 1, 0, - 1, 0] 3 = 0"
  using cis_quarter_turns [of 1] cis_quarter_turns [of 2] cis_quarter_turns [of 3]
    cis_quarter_turns [of 4] cis_quarter_turns [of 6] cis_quarter_turns [of 9]
  by (simp_all add: dft_coeff_def upt_8 power_numeral_reduce eval_nat_numeral)

lemma dft_two_cycle_cosine_Suc:
  "dft_coeff [1, 0, - 1, 0, 1, 0, - 1, 0] (Suc (Suc 0)) = 4"
  "dft_coeff [1, 0, - 1, 0, 1, 0, - 1, 0] (Suc (Suc (Suc 0))) = 0"
  using dft_two_cycle_cosine(3,4) by (simp_all add: numeral_2_eq_2 numeral_3_eq_3)

lemma top_peaks_two_cycle_cosine:
  "top_peaks [Finite 0, Finite 1, Finite 2, Finite 3] [Finite 0, Finite 0, Finite 1, Finite 0]
     = ([Finite 2], [Finite 1])"
  by code_simp

lemma compute_fft_two_cycle_cosine:
  "compute_fft exact_platform 8 two_cycle_cosine
     = Inr \<lparr>frequencies = [Finite 0, Finite 1, Finite 2, Finite 3],
            magnitude = [Finite 0, Finite 0, Finite 1, Finite 0],
            peak_frequencies = [Finite 2], peak_magnitudes = [Finite 1]\<rparr>"
proof -
  have f: "np_mul (Finite 0) (Finite 1) = Finite 0" "np_mul (Finite 1) (Finite 1) = Finite 1"
    "np_mul (Finite 2) (Finite 1) = Finite 2" "np_mul (Finite 3) (Finite 1) = Finite 3"
    by (simp_all add: np_mul_def round64_def fl64_0 signed_zero_def fl64_fourths)
  have m: "np_max [Finite 0, Finite 0, Finite 4, Finite 0] = Inr (Finite 4)"
    by (simp add: np_max_def np_less_def)
  have z: "np_div (Finite 0) (Finite 4) = Finite 0" "np_div (Finite 4) (Finite 4) = Finite 1"
    by (simp_all add: np_div_def round64_def fl64_0 signed_zero_def)
  show ?thesis
    unfolding compute_fft_def
    by (simp add: Let_def two_cycle_cosine_def fft_frequency_step np_eq_def upt_4 f
        exact_platform_def dft_two_cycle_cosine dft_two_cycle_cosine_Suc m z
        top_peaks_two_cycle_cosine)
qed

subsection \<open>The frequency verifier\<close>

lemma takeWhile_stops:
  "\<exists>x\<in>set xs. \<not> Q x \<Longrightarrow> length (takeWhile Q xs) < length xs"
  by (induction xs) auto

lemma fold_pick_member: "fold (\<lambda>y m. if c y m then y else m) ys x \<in> set (x # ys)"
proof (induction ys arbitrary: x)
  case Nil then show ?case by simp
next
  case (Cons y ys)
  show ?case using Cons [of "if c y x then y else x"] by auto
qed

lemma np_eq_refl: "a \<noteq> NaN \<Longrightarrow> np_eq a a"
  by (cases a) (simp_all add: np_eq_def)

lemma np_argmin_Inr:
  assumes "xs \<noteq> []"
  shows "\<exists>i. np_argmin xs = Inr i \<and> i < length xs"
proof (cases "NaN \<in> set xs")
  case True
  then have "length (takeWhile (\<lambda>x. x \<noteq> NaN) xs) < length xs"
    by (intro takeWhile_stops) auto
  then show ?thesis using assms True by (simp add: np_argmin_def)
next
  case False
  define m where "m = fold (\<lambda>y m. if np_less y m then y else m) (tl xs) (hd xs)"
  have "m \<in> set (hd xs # tl xs)" unfolding m_def by (rule fold_pick_member)
  then have m: "m \<in> set xs" using assms by simp
  then have "m \<noteq> NaN" using False by auto
  then have "np_eq m m" by (rule np_eq_refl)
  then have "length (takeWhile (\<lambda>x. \<not> np_eq x m) xs) < length xs"
    using m by (intro takeWhile_stops) auto
  then show ?thesis using assms False by (simp add: np_argmin_def m_def Let_def)
qed

lemma verify_peaks_empty: "verify_peaks [] e tol = Inl ValueError"
  by (simp add: verify_peaks_def np_argmin_def)

lemma verify_peaks_nonempty:
  assumes "peaks \<noteq> []"
  shows "\<exists>r. verify_peaks peaks e tol = Inr r
     \<and> detected_frequency r \<in> set peaks
     \<and> error_percent r
         = np_mul (np_div (np_abs (np_sub (detected_frequency r) e)) e) (Finite 100)
     \<and> is_accurate r = np_le (np_div (np_abs (np_sub (detected_frequency r) e)) e) tol"
proof -
  have "map (\<lambda>p. np_abs (np_sub p e)) peaks \<noteq> []" using assms by simp
  from np_argmin_Inr [OF this] obtain i
    where i: "np_argmin (map (\<lambda>p. np_abs (np_sub p e)) peaks) = Inr i" "i < length peaks"
    by auto
  have "peaks ! i \<in> set peaks" using i(2) by simp
  then show ?thesis by (simp add: verify_peaks_def i(1) Let_def)
qed

lemma np_abs_cases:
  "np_abs x = NaN \<or> np_abs x = PosInf \<or> (\<exists>v. np_abs x = Finite v \<and> 0 \<le> v)"
  by (cases x) simp_all

lemma np_div_by_zero:
  assumes "finite_value e = Some 0"
  shows "np_div (np_abs x) e
           = (if np_less (Finite 0) (np_abs x) then signed_inf (sign_bit e) else NaN)"
  using np_abs_cases [of x] finite_value_zero_cases [OF assms]
  by (auto simp: np_div_def np_less_def)

lemma np_mul_inf_100:
  "np_mul (signed_inf b) (Finite 100) = signed_inf b" "np_mul NaN (Finite 100) = NaN"
  by (simp_all add: np_mul_def signed_inf_def)

lemma np_le_NaN: "\<not> np_le NaN tol"
  by (simp add: np_le_def np_less_def np_eq_def)

lemma compute_fft_error:
  "compute_fft P sr samples = Inl e \<Longrightarrow> e = ValueError \<or> e = ZeroDivisionError"
  by (auto simp: compute_fft_def Let_def np_max_def split: if_splits prod.splits)

section \<open>Mixing an empty track list\<close>

text \<open>
  C1 (as stated): mixing an empty track list fails with the error EmptyInput. The code has
  no such check: the \<^verbatim>\<open>max\<close> over the empty sequence raises ValueError.
\<close>

theorem generate_multi_track_empty_not_EmptyInput:
  "generate_multi_track exact_platform 44100 [] \<noteq> Inl EmptyInput"
  by (simp add: generate_multi_track_def mixed_buffer_def total_samples_def py_max_def)

text \<open>
  C1 (amended): for every sample rate, mixing an empty track list fails with the
  ValueError of \<^verbatim>\<open>max\<close> on an empty sequence, before any buffer is allocated; no
  buffer is returned.
\<close>

theorem generate_multi_track_empty:
  "generate_multi_track P sample_rate [] = Inl ValueError"
  by (simp add: generate_multi_track_def mixed_buffer_def total_samples_def py_max_def)

section \<open>Parameters of the tone generator\<close>




section \<open>Buffer length, amplitude and offsets of the mix\<close>




section \<open>Range and normalisation of the mix\<close>



section \<open>The write region of a track\<close>

text \<open>
  C10: for tracks with start time and duration \<open>\<ge> 0\<close>, the write region of each track,
  from \<open>int(start_time * sampleRate)\<close> and \<open>int(sampleRate * duration)\<close> samples long, lies
  within the buffer of \<open>int(sampleRate * max(start_time + duration))\<close> samples. In binary64
  it does not: at 44100 Hz a track of 0.6 s starting at 0.3 s has a buffer of 39689 samples,
  the sum 0.3 + 0.6 being rounded below 0.9, and a tone of 26460 samples laid from sample
  13230. The slice of the buffer is one sample shorter than the tone and NumPy raises
  ValueError. The same happens for a track of 2 s starting at 0.01 s.
\<close>

theorem generate_multi_track_write_region_overruns:
  "total_samples 44100 [rounded_track] = Inr 39689
   \<and> start_sample 44100 rounded_track = Inr 13230
   \<and> (\<exists>s. track_tone exact_platform 44100 rounded_track = Inr s \<and> length s = 26460)
   \<and> generate_multi_track exact_platform 44100 [rounded_track] = Inl ValueError
   \<and> generate_multi_track exact_platform 44100 [long_track] = Inl ValueError"
  using rounded_track_total rounded_track_start rounded_track_tone [of exact_platform]
    rounded_track_fails [of exact_platform] long_track_fails [of exact_platform]
  by simp

section \<open>Normalisation of the spectrum\<close>

text \<open>
  C6: the spectrum is divided by its maximum magnitude only when that maximum is not zero;
  when it is zero (an all-zero buffer) every returned magnitude is 0 and nothing is divided.
  The code divides without a test (line 160). A track of velocity 0, which the track model
  allows, mixes to a buffer of zeros; the transform of the zeros is zero, the maximum is 0,
  and the division of 0 by 0 makes every magnitude NaN; no peak is found.
\<close>

theorem compute_fft_silence_is_nan:
  "generate_multi_track exact_platform 4 [silent_track] = Inr [0, 0, 0, 0]
   \<and> compute_fft exact_platform 4 [0, 0, 0, 0]
     = Inr \<lparr>frequencies = [Finite 0, Finite 1], magnitude = [NaN, NaN],
            peak_frequencies = [], peak_magnitudes = []\<rparr>"
  using silent_track_output compute_fft_silence by simp

section \<open>Errors of the frequency verifier\<close>

text \<open>
  C9 (as stated): the verification fails with EmptyInput when the list of detected peaks is
  empty and with InvalidParameter when the expected frequency is 0, and produces no result
  in either case. The code has neither check. With the expected frequency 0 and a peak at
  2 Hz it returns a result: the error is infinite and the result not accurate; with the
  expected frequency \<open>-0.0\<close>, which equals 0, the error is \<open>-\<infinity>\<close> and the result is accurate.
  With no peak the error raised is the ValueError of \<^verbatim>\<open>np.argmin\<close>.
\<close>

theorem verify_frequency_accuracy_zero_expected_returns:
  "(\<exists>r. verify_frequency_accuracy exact_platform 8 two_cycle_cosine (Finite 0)
            (Finite tolerance_002) = Inr r
        \<and> detected_frequency r = Finite 2 \<and> error_percent r = PosInf \<and> \<not> is_accurate r)
   \<and> (\<exists>r. verify_frequency_accuracy exact_platform 8 two_cycle_cosine NegZero
            (Finite tolerance_002) = Inr r
        \<and> detected_frequency r = Finite 2 \<and> error_percent r = NegInf \<and> is_accurate r)
   \<and> verify_frequency_accuracy exact_platform 4 [0, 0, 0, 0] (Finite 440) (Finite tolerance_002)
       = Inl ValueError"
proof -
  have s: "np_sub (Finite 2) (Finite 0) = Finite 2" "np_sub (Finite 2) NegZero = Finite 2"
    by (simp_all add: np_sub_def np_add_def round64_def fl64_fourths)
  have a: "np_argmin [Finite 2] = Inr 0" by (simp add: np_argmin_def np_eq_def)
  have 1: "verify_peaks [Finite 2] (Finite 0) (Finite tolerance_002)
      = Inr \<lparr>expected_frequency = Finite 0, detected_frequency = Finite 2,
              error_percent = PosInf, is_accurate = False,
              tolerance_percent = np_mul (Finite tolerance_002) (Finite 100)\<rparr>"
    by (simp add: verify_peaks_def s a Let_def np_div_def signed_inf_def np_mul_def np_le_def
        np_less_def np_eq_def)
  have 2: "verify_peaks [Finite 2] NegZero (Finite tolerance_002)
      = Inr \<lparr>expected_frequency = NegZero, detected_frequency = Finite 2,
              error_percent = NegInf, is_accurate = True,
              tolerance_percent = np_mul (Finite tolerance_002) (Finite 100)\<rparr>"
    by (simp add: verify_peaks_def s a Let_def np_div_def signed_inf_def np_mul_def np_le_def
        np_less_def np_eq_def)
  show ?thesis
    by (simp add: verify_frequency_accuracy_def compute_fft_two_cycle_cosine compute_fft_silence
        1 2 verify_peaks_empty)
qed

text \<open>
  C9 (amended): the verification never fails with EmptyInput or InvalidParameter. Whenever
  the spectrum has no peak it fails with the ValueError of \<^verbatim>\<open>np.argmin\<close> on an empty array
  and produces no result. Whenever the spectrum has a peak it produces a result, also when
  the expected frequency is zero: the division by zero is NumPy's, so when the detected
  frequency differs from the expected one the error is the infinity with the sign of the
  zero, \<open>+\<infinity>\<close> for \<open>0.0\<close> and \<open>-\<infinity>\<close> for \<open>-0.0\<close>, and the result is accurate exactly when that
  infinity is at most the tolerance; were the two equal the error would be NaN and the
  result not accurate.
\<close>

theorem verify_frequency_accuracy_errors:
  "verify_frequency_accuracy P sr samples e tol \<noteq> Inl EmptyInput
   \<and> verify_frequency_accuracy P sr samples e tol \<noteq> Inl InvalidParameter
   \<and> (\<forall>d. compute_fft P sr samples = Inr d \<longrightarrow>
        (peak_frequencies d = [] \<longrightarrow>
           verify_frequency_accuracy P sr samples e tol = Inl ValueError)
      \<and> (peak_frequencies d \<noteq> [] \<longrightarrow>
           (\<exists>r. verify_frequency_accuracy P sr samples e tol = Inr r
              \<and> detected_frequency r \<in> set (peak_frequencies d)
              \<and> (finite_value e = Some 0 \<longrightarrow>
                   (if np_less (Finite 0) (np_abs (np_sub (detected_frequency r) e))
                    then error_percent r = signed_inf (sign_bit e)
                         \<and> is_accurate r = np_le (signed_inf (sign_bit e)) tol
                    else error_percent r = NaN \<and> \<not> is_accurate r)))))"
proof (cases "compute_fft P sr samples")
  case (Inl err)
  then show ?thesis using compute_fft_error [OF Inl]
    by (auto simp: verify_frequency_accuracy_def)
next
  case (Inr d)
  show ?thesis
  proof (cases "peak_frequencies d = []")
    case True
    then show ?thesis using Inr by (simp add: verify_frequency_accuracy_def verify_peaks_empty)
  next
    case False
    from verify_peaks_nonempty [OF False, of e tol] obtain r
      where r: "verify_peaks (peak_frequencies d) e tol = Inr r"
        "detected_frequency r \<in> set (peak_frequencies d)"
        "error_percent r
           = np_mul (np_div (np_abs (np_sub (detected_frequency r) e)) e) (Finite 100)"
        "is_accurate r = np_le (np_div (np_abs (np_sub (detected_frequency r) e)) e) tol"
      by blast
    have v: "verify_frequency_accuracy P sr samples e tol = Inr r"
      using Inr r(1) by (simp add: verify_frequency_accuracy_def)
    have "if np_less (Finite 0) (np_abs (np_sub (detected_frequency r) e))
          then error_percent r = signed_inf (sign_bit e)
               \<and> is_accurate r = np_le (signed_inf (sign_bit e)) tol
          else error_percent r = NaN \<and> \<not> is_accurate r"
      if z: "finite_value e = Some 0"
      unfolding r(3,4) np_div_by_zero [OF z]
      by (simp add: np_mul_inf_100 np_le_NaN)
    then show ?thesis using v r(2) Inr False by simp
  qed
qed

theorem verify_frequency_accuracy_errors_witness:
  "compute_fft exact_platform 4 [0, 0, 0, 0]
     = Inr \<lparr>frequencies = [Finite 0, Finite 1], magnitude = [NaN, NaN],
            peak_frequencies = [], peak_magnitudes = []\<rparr>
   \<and> verify_frequency_accuracy exact_platform 4 [0, 0, 0, 0] (Finite 440) (Finite tolerance_002)
       = Inl ValueError
   \<and> compute_fft exact_platform 8 two_cycle_cosine
     = Inr \<lparr>frequencies = [Finite 0, Finite 1, Finite 2, Finite 3],
            magnitude = [Finite 0, Finite 0, Finite 1, Finite 0],
            peak_frequencies = [Finite 2], peak_magnitudes = [Finite 1]\<rparr>
   \<and> finite_value NegZero = Some 0
   \<and> (\<exists>r. verify_frequency_accuracy exact_platform 8 two_cycle_cosine NegZero
             (Finite tolerance_002) = Inr r
          \<and> detected_frequency r = Finite 2
          \<and> np_less (Finite 0) (np_abs (np_sub (detected_frequency r) NegZero))
          \<and> error_percent r = NegInf \<and> is_accurate r)"
proof -
  have s: "np_sub (Finite 2) NegZero = Finite 2"
    by (simp add: np_sub_def np_add_def round64_def fl64_fourths)
  have l: "np_less (Finite 0) (Finite 2)" "np_le NegInf (Finite tolerance_002)"
    by (simp_all add: np_less_def np_le_def)
  show ?thesis
    using verify_frequency_accuracy_errors [of exact_platform 4 "[0, 0, 0, 0]" "Finite 440"
        "Finite tolerance_002"]
      verify_frequency_accuracy_errors [of exact_platform 8 two_cycle_cosine NegZero
        "Finite tolerance_002"]
      compute_fft_silence compute_fft_two_cycle_cosine
    by (auto simp: s l signed_inf_def)
qed


end
